theory Spec2Isabelle
  imports Main
begin

section \<open>Values shared by the client and the weather service\<close>

text \<open>
  Python strings are modelled as \<open>string\<close>, holding the UTF-8 bytes of the text.
  JSON values are what \<^verbatim>\<open>json.loads\<close> and \<^verbatim>\<open>response.json()\<close> produce:
  \<open>JFloat m e\<close> stands for the finite float \<open>m * 2 ^ e\<close>; a dict is an association
  list in insertion order.
\<close>

datatype json =
    JNull
  | JBool bool
  | JInt int
  | JFloat int int
  | JString string
  | JArray "json list"
  | JObject "(string \<times> json) list"

text \<open>Every \<^verbatim>\<open>raise\<close> that can leave one of the modelled functions.\<close>

datatype exn =
    ValueError string
  | AttributeError
  | IndexError
  | KeyError string
  | TypeError
  | JSONDecodeError
  | RecursionError
  | McpError string
  | OpenAIError string
  | HTTPError string

text \<open>\<^verbatim>\<open>sep.join(parts)\<close>\<close>

fun py_join :: "string \<Rightarrow> string list \<Rightarrow> string" where
  "py_join sep [] = []"
| "py_join sep [x] = x"
| "py_join sep (x # y # ys) = x @ sep @ py_join sep (y # ys)"

section \<open>client.py: the data exchanged with the MCP session and the model provider\<close>

text \<open>A tool as \<^verbatim>\<open>session.list_tools()\<close> returns it in \<^verbatim>\<open>response.tools\<close>.\<close>

record tool =
  tool_name :: string
  tool_description :: "string option"
  inputSchema :: json

text \<open>The dict built at lines 119-126 of client.py for each tool.\<close>

record openai_function =
  fn_name :: string
  fn_description :: "string option"
  fn_parameters :: json

record openai_tool =
  tool_type :: string
  tool_function :: openai_function

text \<open>A tool call of the model: \<^verbatim>\<open>tool_call.id\<close>, \<^verbatim>\<open>tool_call.function.name\<close>,
  \<^verbatim>\<open>tool_call.function.arguments\<close> (the raw JSON text).\<close>

record tool_call =
  call_id :: string
  call_name :: string
  call_arguments :: string

text \<open>\<^verbatim>\<open>completion.choices[i].message\<close>: both fields are optional in the provider's type.\<close>

record assistant_message =
  msg_content :: "string option"
  msg_tool_calls :: "tool_call list option"

record chat_completion =
  choices :: "assistant_message list"

text \<open>The result of \<^verbatim>\<open>session.call_tool\<close>: content blocks and the error flag.\<close>

datatype content_block =
    TextContent string
  | ImageContent string string
  | EmbeddedResource string

record call_tool_result =
  result_content :: "content_block list"
  isError :: bool

text \<open>The entry of \<^verbatim>\<open>"tool_calls"\<close> written at lines 161-168.\<close>

record tool_call_dict =
  tc_id :: string
  tc_type :: string
  tc_name :: string
  tc_arguments :: string

text \<open>
  The three shapes of dict that \<^verbatim>\<open>process_query\<close> puts into \<^verbatim>\<open>messages\<close>:
  \<^verbatim>\<open>{"role": "user", "content": q}\<close>,
  \<^verbatim>\<open>{"role": "assistant", "content": c, "tool_calls": tcs}\<close> and
  \<^verbatim>\<open>{"role": "tool", "tool_call_id": i, "name": n, "content": c}\<close>.
\<close>

datatype message =
    UserMessage string
  | AssistantMessage "string option" "tool_call_dict list"
  | ToolResultMessage string string "content_block list"

text \<open>
  The calls that leave the process, in the order they are made. The log of a run is the
  list of these events; a call is logged whether it returns or raises.
\<close>

datatype event =
    EvStdioClient string "string list"
  | EvClientSession
  | EvInitialize
  | EvListTools
  | EvPrintTools "string list"
  | EvCallTool string json
  | EvCompletion "message list" "openai_tool list option"

text \<open>
  The collaborators of the client, as a state machine over a world state \<open>'w\<close>: the
  stdio transport, the MCP session, the model provider, and \<^verbatim>\<open>json.loads\<close> (pure).
  Each operation returns its value or the exception it raises, and the next world state.
  \<^verbatim>\<open>json.loads\<close> gives the parsed value or the exception it raises on that text:
  \<^verbatim>\<open>JSONDecodeError\<close> on a text that is not JSON, but also \<^verbatim>\<open>ValueError\<close> or
  \<^verbatim>\<open>RecursionError\<close> on some texts with very long numbers or very deep nesting.
\<close>

record 'w world =
  stdio_client :: "string \<Rightarrow> string list \<Rightarrow> 'w \<Rightarrow> exn option \<times> 'w"
  client_session :: "'w \<Rightarrow> exn option \<times> 'w"
  initialize :: "'w \<Rightarrow> exn option \<times> 'w"
  list_tools :: "'w \<Rightarrow> (exn + tool list) \<times> 'w"
  call_tool :: "string \<Rightarrow> json \<Rightarrow> 'w \<Rightarrow> (exn + call_tool_result) \<times> 'w"
  chat_completions_create ::
    "message list \<Rightarrow> openai_tool list option \<Rightarrow> 'w \<Rightarrow> (exn + chat_completion) \<times> 'w"
  json_loads :: "string \<Rightarrow> exn + json"

text \<open>\<^verbatim>\<open>self.session\<close> is \<^verbatim>\<open>None\<close> until \<^verbatim>\<open>connect_to_server\<close> sets it.\<close>

datatype session_handle = ClientSession

record MCPClient =
  session :: "session_handle option"

definition MCPClient_init :: MCPClient where
  "MCPClient_init = \<lparr>session = None\<rparr>"

text \<open>
  The state of one \<^verbatim>\<open>process_query\<close> call: the world, the log of the calls made so
  far, and the locals \<^verbatim>\<open>messages\<close> and \<^verbatim>\<open>final_text\<close>.
\<close>

record 'w frame =
  ws :: 'w
  log :: "event list"
  messages :: "message list"
  final_text :: "string list"

definition emit :: "event \<Rightarrow> 'w \<Rightarrow> 'w frame \<Rightarrow> 'w frame" where
  "emit e w s = s\<lparr>ws := w, log := log s @ [e]\<rparr>"

section \<open>client.py: process_query\<close>

text \<open>Lines 115-126: the loop that converts each MCP tool to the provider's format.\<close>

fun convert_tools :: "tool list \<Rightarrow> openai_tool list \<Rightarrow> openai_tool list" where
  "convert_tools [] openai_tools = openai_tools"
| "convert_tools (t # tools) openai_tools =
     convert_tools tools
       (openai_tools @
        [\<lparr>tool_type = ''function'',
          tool_function = \<lparr>fn_name = tool_name t,
                            fn_description = tool_description t,
                            fn_parameters = inputSchema t\<rparr>\<rparr>])"

text \<open>
  Python truthiness of \<^verbatim>\<open>assistant_message.tool_calls\<close>, an optional list:
  \<^verbatim>\<open>None\<close> and \<^verbatim>\<open>[]\<close> are false.
\<close>

definition truthy_list :: "'a list option \<Rightarrow> bool" where
  "truthy_list c = (case c of None \<Rightarrow> False | Some xs \<Rightarrow> xs \<noteq> [])"

text \<open>The list a \<^verbatim>\<open>for\<close> loop runs over when the optional list is true.\<close>

definition iter_list :: "'a list option \<Rightarrow> 'a list" where
  "iter_list c = (case c of None \<Rightarrow> [] | Some xs \<Rightarrow> xs)"

text \<open>Lines 184-185 and 188-189: \<^verbatim>\<open>if m.content: final_text.append(m.content)\<close>.\<close>

definition capture_text :: "assistant_message \<Rightarrow> 'w frame \<Rightarrow> 'w frame" where
  "capture_text m s =
     (case msg_content m of
        None \<Rightarrow> s
      | Some c \<Rightarrow> if c \<noteq> [] then s\<lparr>final_text := final_text s @ [c]\<rparr> else s)"

text \<open>The two dicts appended at lines 158-175 for one tool call and its result.\<close>

definition assistant_entry :: "tool_call \<Rightarrow> message" where
  "assistant_entry tc =
     AssistantMessage None
       [\<lparr>tc_id = call_id tc, tc_type = ''function'',
         tc_name = call_name tc, tc_arguments = call_arguments tc\<rparr>]"

definition tool_entry :: "tool_call \<Rightarrow> call_tool_result \<Rightarrow> message" where
  "tool_entry tc r = ToolResultMessage (call_id tc) (call_name tc) (result_content r)"

text \<open>
  Lines 144-185: the body of \<^verbatim>\<open>for tool_call in assistant_message.tool_calls\<close>,
  for one tool call. The result is the exception that left the body, if any, and the
  frame at that point.
\<close>

definition loop_body :: "'w world \<Rightarrow> tool_call \<Rightarrow> 'w frame \<Rightarrow> exn option \<times> 'w frame" where
  "loop_body W tc s =
     (case json_loads W (call_arguments tc) of
        Inl e \<Rightarrow> (Some e, s)
      | Inr parsed_args \<Rightarrow>
          (case call_tool W (call_name tc) parsed_args (ws s) of
             (Inl e, w1) \<Rightarrow> (Some e, emit (EvCallTool (call_name tc) parsed_args) w1 s)
           | (Inr result, w1) \<Rightarrow>
               (let s1 = emit (EvCallTool (call_name tc) parsed_args) w1 s;
                    s2 = s1\<lparr>messages := messages s1 @ [assistant_entry tc]\<rparr>;
                    s3 = s2\<lparr>messages := messages s2 @ [tool_entry tc result]\<rparr>
                in case chat_completions_create W (messages s3) None (ws s3) of
                     (Inl e, w2) \<Rightarrow> (Some e, emit (EvCompletion (messages s3) None) w2 s3)
                   | (Inr completion, w2) \<Rightarrow>
                       (let s4 = emit (EvCompletion (messages s3) None) w2 s3
                        in case choices completion of
                             [] \<Rightarrow> (Some IndexError, s4)
                           | assistant_message # _ \<Rightarrow>
                               (None, capture_text assistant_message s4)))))"

text \<open>
  Line 143: the loop. The list iterated is the one of the first response; rebinding
  \<^verbatim>\<open>assistant_message\<close> inside the body does not change it. An exception in the
  body ends the loop.
\<close>

fun tool_loop :: "'w world \<Rightarrow> tool_call list \<Rightarrow> 'w frame \<Rightarrow> exn option \<times> 'w frame" where
  "tool_loop W [] s = (None, s)"
| "tool_loop W (tc # tcs) s =
     (case loop_body W tc s of
        (Some e, s1) \<Rightarrow> (Some e, s1)
      | (None, s1) \<Rightarrow> tool_loop W tcs s1)"

text \<open>
  Lines 106-192. The frame is returned with the outcome so that the conversation and the
  log can be observed also when the call ends in an exception.
\<close>

definition process_query ::
  "'w world \<Rightarrow> MCPClient \<Rightarrow> string \<Rightarrow> 'w \<Rightarrow> (exn + string) \<times> 'w frame" where
  "process_query W self query w =
     (let s0 = \<lparr>ws = w, log = [], messages = [UserMessage query], final_text = []\<rparr>
      in case session self of
           None \<Rightarrow> (Inl AttributeError, s0)
         | Some _ \<Rightarrow>
             (case list_tools W (ws s0) of
                (Inl e, w1) \<Rightarrow> (Inl e, emit EvListTools w1 s0)
              | (Inr tools, w1) \<Rightarrow>
                  (let s1 = emit EvListTools w1 s0;
                       openai_tools = convert_tools tools []
                   in case chat_completions_create W (messages s1) (Some openai_tools) (ws s1) of
                        (Inl e, w2) \<Rightarrow>
                          (Inl e, emit (EvCompletion (messages s1) (Some openai_tools)) w2 s1)
                      | (Inr completion, w2) \<Rightarrow>
                          (let s2 = emit (EvCompletion (messages s1) (Some openai_tools)) w2 s1
                           in case choices completion of
                                [] \<Rightarrow> (Inl IndexError, s2)
                              | assistant_message # _ \<Rightarrow>
                                  (if truthy_list (msg_tool_calls assistant_message)
                                   then (case tool_loop W (iter_list (msg_tool_calls assistant_message)) s2 of
                                           (Some e, s3) \<Rightarrow> (Inl e, s3)
                                         | (None, s3) \<Rightarrow>
                                             (Inr (py_join [CHR 0x0A] (final_text s3)), s3))
                                   else (let s3 = capture_text assistant_message s2
                                         in (Inr (py_join [CHR 0x0A] (final_text s3)), s3)))))))"

section \<open>client.py: connect_to_server\<close>

text \<open>\<^verbatim>\<open>s.endswith(suffix)\<close>\<close>

definition endswith :: "string \<Rightarrow> string \<Rightarrow> bool" where
  "endswith s suf = (length suf \<le> length s \<and> drop (length s - length suf) s = suf)"

text \<open>
  Lines 57-87. The result is the exception raised, if any, the client with its
  \<^verbatim>\<open>session\<close> attribute as the call leaves it, the world, and the log of the call.
\<close>

definition connect_to_server ::
  "'w world \<Rightarrow> MCPClient \<Rightarrow> string \<Rightarrow> 'w \<Rightarrow> exn option \<times> MCPClient \<times> 'w \<times> event list" where
  "connect_to_server W self server_script_path w =
     (if \<not> endswith server_script_path ''.py'' \<and> \<not> endswith server_script_path ''.js''
      then (Some (ValueError ''Server script must end in .py or .js''), self, w, [])
      else
        (let command = (if endswith server_script_path ''.py'' then ''python'' else ''node'');
             l1 = [EvStdioClient command [server_script_path]]
         in case stdio_client W command [server_script_path] w of
              (Some e, w1) \<Rightarrow> (Some e, self, w1, l1)
            | (None, w1) \<Rightarrow>
                (let l2 = l1 @ [EvClientSession]
                 in case client_session W w1 of
                      (Some e, w2) \<Rightarrow> (Some e, self, w2, l2)
                    | (None, w2) \<Rightarrow>
                        (let self1 = self\<lparr>session := Some ClientSession\<rparr>;
                             l3 = l2 @ [EvInitialize]
                         in case initialize W w2 of
                              (Some e, w3) \<Rightarrow> (Some e, self1, w3, l3)
                            | (None, w3) \<Rightarrow>
                                (let l4 = l3 @ [EvListTools]
                                 in case list_tools W w3 of
                                      (Inl e, w4) \<Rightarrow> (Some e, self1, w4, l4)
                                    | (Inr tools, w4) \<Rightarrow>
                                        (None, self1, w4,
                                         l4 @ [EvPrintTools (map tool_name tools)]))))))"

section \<open>Observations on a conversation and on a log\<close>

definition is_assistant :: "message \<Rightarrow> bool" where
  "is_assistant m = (case m of AssistantMessage c tcs \<Rightarrow> True | _ \<Rightarrow> False)"

definition is_tool_result :: "message \<Rightarrow> bool" where
  "is_tool_result m = (case m of ToolResultMessage i n c \<Rightarrow> True | _ \<Rightarrow> False)"

text \<open>The \<^verbatim>\<open>tool_call_id\<close>s of the tool-result messages of a conversation, in order.\<close>

fun result_ids :: "message list \<Rightarrow> string list" where
  "result_ids [] = []"
| "result_ids (ToolResultMessage i n c # ms) = i # result_ids ms"
| "result_ids (m # ms) = result_ids ms"

text \<open>
  \<open>balanced_from pending ms\<close>: reading \<open>ms\<close> from left to right, each assistant message
  comes when no tool call is pending and makes its tool calls pending, each tool-result
  message answers the oldest pending call, and nothing is pending at the end.
\<close>

fun balanced_from :: "string list \<Rightarrow> message list \<Rightarrow> bool" where
  "balanced_from pending [] = (pending = [])"
| "balanced_from pending (UserMessage q # ms) = (pending = [] \<and> balanced_from [] ms)"
| "balanced_from pending (AssistantMessage c tcs # ms) =
     (pending = [] \<and> balanced_from (map tc_id tcs) ms)"
| "balanced_from pending (ToolResultMessage i n c # ms) =
     (case pending of [] \<Rightarrow> False | p # ps \<Rightarrow> p = i \<and> balanced_from ps ms)"

definition is_completion :: "event \<Rightarrow> bool" where
  "is_completion e = (case e of EvCompletion ms ts \<Rightarrow> True | _ \<Rightarrow> False)"

text \<open>The conversations sent to the model provider, one per Model Gateway call, in order.\<close>

fun sent_conversations :: "event list \<Rightarrow> message list list" where
  "sent_conversations [] = []"
| "sent_conversations (EvCompletion ms ts # evs) = ms # sent_conversations evs"
| "sent_conversations (e # evs) = sent_conversations evs"

text \<open>
  \<open>answered tc ms\<close>: the conversation \<open>ms\<close> ends with the assistant entry of \<open>tc\<close> and a
  tool-result message for \<open>tc\<close>.
\<close>

definition answered :: "tool_call \<Rightarrow> message list \<Rightarrow> bool" where
  "answered tc ms =
     (case rev ms of
        ToolResultMessage i n c # a # rest \<Rightarrow>
          i = call_id tc \<and> n = call_name tc \<and> a = assistant_entry tc
      | _ \<Rightarrow> False)"

text \<open>
  \<open>one_followup_each tcs evs\<close>: the events \<open>evs\<close> are, for each tool call of \<open>tcs\<close> in
  order, its dispatch and then one Model Gateway call without tool schemas, made on a
  conversation that ends with that call and its result.
\<close>

fun one_followup_each :: "tool_call list \<Rightarrow> event list \<Rightarrow> bool" where
  "one_followup_each [] evs = (evs = [])"
| "one_followup_each (tc # tcs) (EvCallTool n a # EvCompletion ms ts # evs) =
     (n = call_name tc \<and> ts = None \<and> answered tc ms \<and> one_followup_each tcs evs)"
| "one_followup_each (tc # tcs) evs = False"

section \<open>weather.py: get_forecast\<close>

definition NWS_API_BASE :: string where
  "NWS_API_BASE = ''https://api.weather.gov''"

definition USER_AGENT :: string where
  "USER_AGENT = ''weather-app/1.0''"

text \<open>
  What \<^verbatim>\<open>make_nws_request\<close> needs of an httpx response: whether
  \<^verbatim>\<open>raise_for_status()\<close> returns, and the value of \<^verbatim>\<open>response.json()\<close>
  (\<open>None\<close> when it raises).
\<close>

record http_response =
  status_ok :: bool
  json_body :: "json option"

text \<open>
  The collaborators of the weather service over a world state \<open>'n\<close>: the HTTP client, and
  the text that an f-string field \<^verbatim>\<open>{v}\<close> produces for a value.
\<close>

record 'n nws =
  httpx_get :: "json \<Rightarrow> (string \<times> string) list \<Rightarrow> 'n \<Rightarrow> (exn + http_response) \<times> 'n"
  py_format :: "json \<Rightarrow> string"

text \<open>
  Lines 43-60. Every exception is caught and turned into \<^verbatim>\<open>None\<close>, which is
  \<open>JNull\<close> here, as a JSON \<^verbatim>\<open>null\<close> body is.
\<close>

definition make_nws_request :: "'n nws \<Rightarrow> json \<Rightarrow> 'n \<Rightarrow> json \<times> 'n" where
  "make_nws_request N url n =
     (let headers = [(''User-Agent'', USER_AGENT), (''Accept'', ''application/geo+json'')]
      in case httpx_get N url headers n of
           (Inl e, n1) \<Rightarrow> (JNull, n1)
         | (Inr response, n1) \<Rightarrow>
             (if \<not> status_ok response then (JNull, n1)
              else (case json_body response of
                      None \<Rightarrow> (JNull, n1)
                    | Some data \<Rightarrow> (data, n1))))"

text \<open>Python truthiness of a JSON value (\<^verbatim>\<open>not data\<close> is its negation).\<close>

fun py_truthy :: "json \<Rightarrow> bool" where
  "py_truthy JNull = False"
| "py_truthy (JBool b) = b"
| "py_truthy (JInt i) = (i \<noteq> 0)"
| "py_truthy (JFloat m e) = (m \<noteq> 0)"
| "py_truthy (JString s) = (s \<noteq> [])"
| "py_truthy (JArray xs) = (xs \<noteq> [])"
| "py_truthy (JObject kvs) = (kvs \<noteq> [])"

text \<open>\<^verbatim>\<open>v[key]\<close> for a string key: only a dict has one.\<close>

fun py_getitem :: "json \<Rightarrow> string \<Rightarrow> exn + json" where
  "py_getitem (JObject kvs) key =
     (case map_of kvs key of None \<Rightarrow> Inl (KeyError key) | Some v \<Rightarrow> Inr v)"
| "py_getitem v key = Inl TypeError"

text \<open>
  The items that \<^verbatim>\<open>for period in periods[:5]\<close> runs over. A list gives its
  first five items and a string its first five characters, each a string; a dict, a number,
  a boolean and \<^verbatim>\<open>None\<close> cannot be sliced (a dict raises \<^verbatim>\<open>TypeError\<close> up to
  Python 3.11 and \<^verbatim>\<open>KeyError\<close> from 3.12 on; the former is modelled).
\<close>

fun slice_to_5 :: "json \<Rightarrow> exn + json list" where
  "slice_to_5 (JArray xs) = Inr (take 5 xs)"
| "slice_to_5 (JString s) = Inr (map (\<lambda>c. JString [c]) (take 5 s))"
| "slice_to_5 v = Inl TypeError"

text \<open>Lines 164-169: the f-string for one period; the subscripts are evaluated in order.\<close>

definition format_period :: "'n nws \<Rightarrow> json \<Rightarrow> exn + string" where
  "format_period N period =
     (case py_getitem period ''name'' of Inl e \<Rightarrow> Inl e | Inr name \<Rightarrow>
     (case py_getitem period ''temperature'' of Inl e \<Rightarrow> Inl e | Inr temperature \<Rightarrow>
     (case py_getitem period ''temperatureUnit'' of Inl e \<Rightarrow> Inl e | Inr temperatureUnit \<Rightarrow>
     (case py_getitem period ''windSpeed'' of Inl e \<Rightarrow> Inl e | Inr windSpeed \<Rightarrow>
     (case py_getitem period ''windDirection'' of Inl e \<Rightarrow> Inl e | Inr windDirection \<Rightarrow>
     (case py_getitem period ''detailedForecast'' of Inl e \<Rightarrow> Inl e | Inr detailedForecast \<Rightarrow>
        Inr ([CHR 0x0A] @ py_format N name @ '':'' @ [CHR 0x0A] @
             ''Temperature: '' @ py_format N temperature @ [CHR 0xC2, CHR 0xB0] @
               py_format N temperatureUnit @ [CHR 0x0A] @
             ''Wind: '' @ py_format N windSpeed @ '' '' @ py_format N windDirection @ [CHR 0x0A] @
             ''Forecast: '' @ py_format N detailedForecast @ [CHR 0x0A])))))))"

text \<open>Lines 162-169: the loop that appends one formatted text per period.\<close>

fun format_periods :: "'n nws \<Rightarrow> json list \<Rightarrow> string list \<Rightarrow> exn + string list" where
  "format_periods N [] forecasts = Inr forecasts"
| "format_periods N (period # periods) forecasts =
     (case format_period N period of
        Inl e \<Rightarrow> Inl e
      | Inr t \<Rightarrow> format_periods N periods (forecasts @ [t]))"

text \<open>Lines 145-172.\<close>

definition get_forecast :: "'n nws \<Rightarrow> json \<Rightarrow> json \<Rightarrow> 'n \<Rightarrow> (exn + string) \<times> 'n" where
  "get_forecast N latitude longitude n =
     (let points_url =
            NWS_API_BASE @ ''/points/'' @ py_format N latitude @ '','' @ py_format N longitude
      in case make_nws_request N (JString points_url) n of
           (points_data, n1) \<Rightarrow>
     (if \<not> py_truthy points_data
      then (Inr ''Unable to fetch forecast data for this location.'', n1)
      else
     (case py_getitem points_data ''properties'' of Inl e \<Rightarrow> (Inl e, n1) | Inr props \<Rightarrow>
     (case py_getitem props ''forecast'' of Inl e \<Rightarrow> (Inl e, n1) | Inr forecast_url \<Rightarrow>
     (case make_nws_request N forecast_url n1 of
           (forecast_data, n2) \<Rightarrow>
     (if \<not> py_truthy forecast_data
      then (Inr ''Unable to fetch detailed forecast.'', n2)
      else
     (case py_getitem forecast_data ''properties'' of Inl e \<Rightarrow> (Inl e, n2) | Inr fprops \<Rightarrow>
     (case py_getitem fprops ''periods'' of Inl e \<Rightarrow> (Inl e, n2) | Inr periods \<Rightarrow>
     (case slice_to_5 periods of Inl e \<Rightarrow> (Inl e, n2) | Inr first_periods \<Rightarrow>
     (case format_periods N first_periods [] of Inl e \<Rightarrow> (Inl e, n2) | Inr forecasts \<Rightarrow>
        (Inr (py_join ([CHR 0x0A] @ ''---'' @ [CHR 0x0A]) forecasts), n2)))))))))))"

section \<open>Observations on a run of process_query\<close>

text \<open>
  Lines 106-138, up to the first response: the tools listed, the world after the first
  Model Gateway call, and \<^verbatim>\<open>completion.choices[0].message\<close>; \<open>None\<close> when the
  call ends in an exception before that.
\<close>

definition first_response ::
  "'w world \<Rightarrow> MCPClient \<Rightarrow> string \<Rightarrow> 'w \<Rightarrow> (tool list \<times> 'w \<times> assistant_message) option" where
  "first_response W self query w =
     (case session self of
        None \<Rightarrow> None
      | Some _ \<Rightarrow>
          (case list_tools W w of
             (Inl e, w1) \<Rightarrow> None
           | (Inr tools, w1) \<Rightarrow>
               (case chat_completions_create W [UserMessage query]
                       (Some (convert_tools tools [])) w1 of
                  (Inl e, w2) \<Rightarrow> None
                | (Inr completion, w2) \<Rightarrow>
                    (case choices completion of
                       [] \<Rightarrow> None
                     | assistant_message # _ \<Rightarrow> Some (tools, w2, assistant_message)))))"

text \<open>The frame of \<^verbatim>\<open>process_query\<close> when the first response has arrived.\<close>

definition first_frame :: "string \<Rightarrow> tool list \<Rightarrow> 'w \<Rightarrow> 'w frame" where
  "first_frame query tools w =
     \<lparr>ws = w,
      log = [EvListTools, EvCompletion [UserMessage query] (Some (convert_tools tools []))],
      messages = [UserMessage query],
      final_text = []\<rparr>"

text \<open>The conversation of a frame, and every conversation it has sent, are balanced.\<close>

definition frame_balanced :: "'w frame \<Rightarrow> bool" where
  "frame_balanced s =
     (balanced_from [] (messages s) \<and>
      list_all (balanced_from []) (sent_conversations (log s)))"

section \<open>Example collaborators and runs\<close>

text \<open>
  A world that answers from three scripts, one per collaborator, in order; an exhausted
  script answers with an exception. Its \<^verbatim>\<open>json.loads\<close> knows the two argument
  texts of the examples: \<^verbatim>\<open>{}\<close> is the empty dict, and on \<^verbatim>\<open>{bad\<close>, which is not
  JSON, it raises \<^verbatim>\<open>JSONDecodeError\<close>.
\<close>

record script =
  tools_replies :: "(exn + tool list) list"
  model_replies :: "(exn + chat_completion) list"
  tool_replies :: "(exn + call_tool_result) list"

definition example_json_loads :: "string \<Rightarrow> exn + json" where
  "example_json_loads s = (if s = ''{}'' then Inr (JObject []) else Inl JSONDecodeError)"

definition scripted_world :: "script world" where
  "scripted_world =
     \<lparr>stdio_client = (\<lambda>command args w. (None, w)),
      client_session = (\<lambda>w. (None, w)),
      initialize = (\<lambda>w. (None, w)),
      list_tools = (\<lambda>w. case tools_replies w of
                            [] \<Rightarrow> (Inl (McpError ''connection closed''), w)
                          | r # rs \<Rightarrow> (r, w\<lparr>tools_replies := rs\<rparr>)),
      call_tool = (\<lambda>name args w. case tool_replies w of
                            [] \<Rightarrow> (Inl (McpError ''connection closed''), w)
                          | r # rs \<Rightarrow> (r, w\<lparr>tool_replies := rs\<rparr>)),
      chat_completions_create = (\<lambda>ms ts w. case model_replies w of
                            [] \<Rightarrow> (Inl (OpenAIError ''connection error''), w)
                          | r # rs \<Rightarrow> (r, w\<lparr>model_replies := rs\<rparr>)),
      json_loads = example_json_loads\<rparr>"

definition alerts_tool :: tool where
  "alerts_tool =
     \<lparr>tool_name = ''get_alerts'',
      tool_description = Some ''Fetch active weather alerts for a given US state'',
      inputSchema = JObject [(''type'', JString ''object'')]\<rparr>"

definition call_1 :: tool_call where
  "call_1 = \<lparr>call_id = ''call_1'', call_name = ''get_alerts'', call_arguments = ''{}''\<rparr>"

definition call_2 :: tool_call where
  "call_2 = \<lparr>call_id = ''call_2'', call_name = ''get_forecast'', call_arguments = ''{}''\<rparr>"

definition call_bad :: tool_call where
  "call_bad = \<lparr>call_id = ''call_3'', call_name = ''get_alerts'', call_arguments = ''{bad''\<rparr>"

definition reply_text :: "string option \<Rightarrow> exn + chat_completion" where
  "reply_text t = Inr \<lparr>choices = [\<lparr>msg_content = t, msg_tool_calls = None\<rparr>]\<rparr>"

definition reply_calls :: "tool_call list \<Rightarrow> exn + chat_completion" where
  "reply_calls tcs = Inr \<lparr>choices = [\<lparr>msg_content = None, msg_tool_calls = Some tcs\<rparr>]\<rparr>"

definition tool_reply :: "string \<Rightarrow> bool \<Rightarrow> exn + call_tool_result" where
  "tool_reply t flag = Inr \<lparr>result_content = [TextContent t], isError = flag\<rparr>"

definition connected :: MCPClient where
  "connected = \<lparr>session = Some ClientSession\<rparr>"

text \<open>The model answers with a text and no tool call.\<close>

definition plain_script :: "string option \<Rightarrow> script" where
  "plain_script t =
     \<lparr>tools_replies = [Inr [alerts_tool]],
      model_replies = [reply_text t],
      tool_replies = []\<rparr>"

text \<open>The model asks for two tool calls; both succeed and each follow-up gives a text.\<close>

definition two_calls_script :: script where
  "two_calls_script =
     \<lparr>tools_replies = [Inr [alerts_tool]],
      model_replies = [reply_calls [call_1, call_2],
                       reply_text (Some ''No alerts.''), reply_text (Some ''Sunny.'')],
      tool_replies = [tool_reply ''No active alerts for this state.'' False,
                      tool_reply ''Sunny'' False]\<rparr>"

text \<open>The model asks for two tool calls; the arguments of the second are not JSON.\<close>

definition bad_second_script :: script where
  "bad_second_script =
     \<lparr>tools_replies = [Inr [alerts_tool]],
      model_replies = [reply_calls [call_1, call_bad],
                       reply_text (Some ''No alerts.''), reply_text (Some ''Done.'')],
      tool_replies = [tool_reply ''No active alerts for this state.'' False,
                      tool_reply ''No active alerts for this state.'' False]\<rparr>"


text \<open>
  The model asks for two tool calls; the remote tool answers the first with the given
  error flag.
\<close>

definition flag_script :: "bool \<Rightarrow> script" where
  "flag_script flag =
     \<lparr>tools_replies = [Inr [alerts_tool]],
      model_replies = [reply_calls [call_1, call_2],
                       reply_text (Some ''The alert service failed.''), reply_text (Some ''Sunny.'')],
      tool_replies = [tool_reply ''Error executing tool get_alerts'' flag,
                      tool_reply ''Sunny'' False]\<rparr>"

text \<open>A session: the server lists its tools at connect time and again for one query.\<close>

definition session_script :: script where
  "session_script =
     \<lparr>tools_replies = [Inr [alerts_tool], Inr [alerts_tool]],
      model_replies = [reply_text (Some ''Hello.'')],
      tool_replies = []\<rparr>"

definition after_connect :: "exn option \<times> MCPClient \<times> script \<times> event list" where
  "after_connect = connect_to_server scripted_world MCPClient_init ''weather.py'' session_script"

text \<open>
  The world of \<^verbatim>\<open>call_tool\<close> results with every error flag replaced by \<open>f\<close> of the
  result: the same remote service, reporting its failures differently.
\<close>

definition relabel_errors :: "(call_tool_result \<Rightarrow> bool) \<Rightarrow> 'w world \<Rightarrow> 'w world" where
  "relabel_errors f W =
     W\<lparr>call_tool := \<lambda>name args w.
          case call_tool W name args w of
            (Inl e, w1) \<Rightarrow> (Inl e, w1)
          | (Inr r, w1) \<Rightarrow> (Inr (r\<lparr>isError := f r\<rparr>), w1)\<rparr>"
text \<open>
  An example weather service world: one location, whose forecast has six periods, the
  sixth of them not even a dict. Its \<open>py_format\<close> gives a string as it is and knows the
  numbers of the example.
\<close>

definition example_format :: "json \<Rightarrow> string" where
  "example_format v =
     (case v of
        JString s \<Rightarrow> s
      | _ \<Rightarrow> (case map_of [(JFloat 40 0, ''40.0''), (JFloat (- 75) 0, ''-75.0''),
                           (JInt 72, ''72''), (JInt 65, ''65'')] v of
                Some t \<Rightarrow> t
              | None \<Rightarrow> ''?''))"

definition example_period :: "string \<Rightarrow> int \<Rightarrow> json" where
  "example_period name temperature =
     JObject [(''name'', JString name), (''temperature'', JInt temperature),
              (''temperatureUnit'', JString ''F''), (''windSpeed'', JString ''5 mph''),
              (''windDirection'', JString ''NW''), (''detailedForecast'', JString ''Clear.'')]"

definition example_periods :: "json list" where
  "example_periods =
     [example_period ''Today'' 72, example_period ''Tonight'' 65,
      example_period ''Monday'' 72, example_period ''Monday Night'' 65,
      example_period ''Tuesday'' 72, JNull]"

definition example_forecast_url :: json where
  "example_forecast_url = JString ''https://api.weather.gov/gridpoints/PHI/49,75/forecast''"

definition example_points :: json where
  "example_points = JObject [(''properties'', JObject [(''forecast'', example_forecast_url)])]"

definition example_forecast :: json where
  "example_forecast = JObject [(''properties'', JObject [(''periods'', JArray example_periods)])]"

definition example_nws :: "unit nws" where
  "example_nws =
     \<lparr>httpx_get = (\<lambda>url headers n.
        if url = JString ''https://api.weather.gov/points/40.0,-75.0''
        then (Inr \<lparr>status_ok = True, json_body = Some example_points\<rparr>, n)
        else if url = example_forecast_url
        then (Inr \<lparr>status_ok = True, json_body = Some example_forecast\<rparr>, n)
        else (Inl (HTTPError ''404 Not Found''), n)),
      py_format = example_format\<rparr>"

section \<open>Lemmas on the conversion loop and on the tool loop\<close>

lemma convert_tools_acc:
  "convert_tools tools acc =
     acc @ map (\<lambda>t. \<lparr>tool_type = ''function'',
                      tool_function = \<lparr>fn_name = tool_name t,
                                        fn_description = tool_description t,
                                        fn_parameters = inputSchema t\<rparr>\<rparr>) tools"
  by (induction tools arbitrary: acc) simp_all

lemma emit_fields [simp]:
  "log (emit e w s) = log s @ [e]"
  "ws (emit e w s) = w"
  "messages (emit e w s) = messages s"
  "final_text (emit e w s) = final_text s"
  by (simp_all add: emit_def)

lemma capture_text_fields [simp]:
  "log (capture_text m s) = log s"
  "ws (capture_text m s) = ws s"
  "messages (capture_text m s) = messages s"
  by (simp_all add: capture_text_def split: option.splits)

lemmas body_splits = option.splits prod.splits sum.splits list.splits

text \<open>The loop makes no \<^verbatim>\<open>list_tools\<close> call.\<close>

lemma loop_body_log:
  "\<exists>evs. log (snd (loop_body W tc s)) = log s @ evs \<and> EvListTools \<notin> set evs"
  by (auto simp: loop_body_def Let_def split: body_splits)

lemma tool_loop_log:
  "\<exists>evs. log (snd (tool_loop W tcs s)) = log s @ evs \<and> EvListTools \<notin> set evs"
proof (induction tcs arbitrary: s)
  case Nil
  show ?case by simp
next
  case (Cons tc tcs)
  obtain r s1 where b: "loop_body W tc s = (r, s1)"
    by (cases "loop_body W tc s")
  from loop_body_log[of W tc s] b obtain evs1
    where e1: "log s1 = log s @ evs1" "EvListTools \<notin> set evs1"
    by auto
  show ?case
  proof (cases r)
    case None
    from Cons.IH[of s1] obtain evs2
      where "log (snd (tool_loop W tcs s1)) = log s1 @ evs2" "EvListTools \<notin> set evs2"
      by auto
    with e1 b None
    have "log (snd (tool_loop W (tc # tcs) s)) = log s @ (evs1 @ evs2)
            \<and> EvListTools \<notin> set (evs1 @ evs2)"
      by simp
    then show ?thesis by blast
  next
    case (Some e)
    with e1 b show ?thesis by simp
  qed
qed

text \<open>A body that completes has dispatched its call and made one follow-up call.\<close>

lemma answered_round: "answered tc (ms @ [assistant_entry tc, tool_entry tc r])"
  by (simp add: answered_def tool_entry_def)

lemma loop_body_ok_log:
  assumes "loop_body W tc s = (None, s1)"
  shows "\<exists>a ms. log s1 = log s @ [EvCallTool (call_name tc) a, EvCompletion ms None]
                  \<and> answered tc ms"
proof -
  from assms
  have "\<exists>a r. log s1 = log s @ [EvCallTool (call_name tc) a,
          EvCompletion (messages s @ [assistant_entry tc, tool_entry tc r]) None]"
    by (auto simp: loop_body_def Let_def split: body_splits)
  then show ?thesis using answered_round by blast
qed

lemma tool_loop_ok_log:
  "tool_loop W tcs s = (None, s') \<Longrightarrow>
     \<exists>evs. log s' = log s @ evs \<and> one_followup_each tcs evs"
proof (induction tcs arbitrary: s)
  case Nil
  then show ?case by simp
next
  case (Cons tc tcs)
  from Cons.prems obtain s1
    where b: "loop_body W tc s = (None, s1)" and l: "tool_loop W tcs s1 = (None, s')"
    by (auto split: body_splits)
  from loop_body_ok_log[OF b] obtain a ms
    where 1: "log s1 = log s @ [EvCallTool (call_name tc) a, EvCompletion ms None]"
      "answered tc ms"
    by blast
  from Cons.IH[OF l] obtain evs
    where 2: "log s' = log s1 @ evs" "one_followup_each tcs evs"
    by blast
  from 1 2 have "log s' = log s @ (EvCallTool (call_name tc) a # EvCompletion ms None # evs)"
    by simp
  moreover from 1 2
  have "one_followup_each (tc # tcs) (EvCallTool (call_name tc) a # EvCompletion ms None # evs)"
    by simp
  ultimately show ?case by blast
qed

lemma one_followup_each_count:
  "one_followup_each tcs evs \<Longrightarrow> length (sent_conversations evs) = length tcs"
  by (induction tcs evs rule: one_followup_each.induct) simp_all

text \<open>The conversation after a loop that completes.\<close>

lemma loop_body_ok_messages:
  "loop_body W tc s = (None, s1) \<Longrightarrow>
     \<exists>r. messages s1 = messages s @ [assistant_entry tc, tool_entry tc r]"
  by (auto simp: loop_body_def Let_def split: body_splits)

lemma tool_loop_ok_messages:
  "tool_loop W tcs s = (None, s') \<Longrightarrow>
     \<exists>rs. length tcs = length rs \<and>
       messages s' = messages s @
         concat (map (\<lambda>(tc, r). [assistant_entry tc, tool_entry tc r]) (zip tcs rs))"
proof (induction tcs arbitrary: s)
  case Nil
  then show ?case by simp
next
  case (Cons tc tcs)
  from Cons.prems obtain s1
    where b: "loop_body W tc s = (None, s1)" and l: "tool_loop W tcs s1 = (None, s')"
    by (auto split: body_splits)
  from loop_body_ok_messages[OF b] obtain r
    where 1: "messages s1 = messages s @ [assistant_entry tc, tool_entry tc r]"
    by blast
  from Cons.IH[OF l] obtain rs
    where 2: "length tcs = length rs"
      "messages s' = messages s1 @
         concat (map (\<lambda>(tc, r). [assistant_entry tc, tool_entry tc r]) (zip tcs rs))"
    by blast
  from 1 2
  have "length (tc # tcs) = length (r # rs) \<and>
     messages s' = messages s @
       concat (map (\<lambda>(tc, r). [assistant_entry tc, tool_entry tc r]) (zip (tc # tcs) (r # rs)))"
    by simp
  then show ?case by blast
qed

lemma filter_assistant_rounds:
  "length tcs = length rs \<Longrightarrow>
   filter is_assistant
     (concat (map (\<lambda>(tc, r). [assistant_entry tc, tool_entry tc r]) (zip tcs rs)))
     = map assistant_entry tcs"
  by (induction tcs rs rule: list_induct2)
     (simp_all add: is_assistant_def assistant_entry_def tool_entry_def)

lemma result_ids_append: "result_ids (xs @ ys) = result_ids xs @ result_ids ys"
  by (induction xs rule: result_ids.induct) simp_all

lemma result_ids_rounds:
  "length tcs = length rs \<Longrightarrow>
   result_ids (concat (map (\<lambda>(tc, r). [assistant_entry tc, tool_entry tc r]) (zip tcs rs)))
     = map call_id tcs"
  by (induction tcs rs rule: list_induct2)
     (simp_all add: assistant_entry_def tool_entry_def)

text \<open>Every conversation built or sent is balanced.\<close>

lemma balanced_from_append:
  "balanced_from p ms \<Longrightarrow> balanced_from [] ns \<Longrightarrow> balanced_from p (ms @ ns)"
  by (induction p ms rule: balanced_from.induct) (auto split: list.splits)

lemma balanced_round: "balanced_from [] [assistant_entry tc, tool_entry tc r]"
  by (simp add: assistant_entry_def tool_entry_def)

lemma sent_conversations_append:
  "sent_conversations (xs @ ys) = sent_conversations xs @ sent_conversations ys"
  by (induction xs rule: sent_conversations.induct) simp_all

lemma loop_body_balanced:
  "frame_balanced s \<Longrightarrow> frame_balanced (snd (loop_body W tc s))"
  by (auto simp: frame_balanced_def loop_body_def Let_def sent_conversations_append
      intro!: balanced_from_append[where ns = "[assistant_entry tc, tool_entry tc r]" for r,
                simplified]
        balanced_round[simplified]
      split: body_splits)

lemma tool_loop_balanced:
  "frame_balanced s \<Longrightarrow> frame_balanced (snd (tool_loop W tcs s))"
proof (induction tcs arbitrary: s)
  case Nil
  then show ?case by simp
next
  case (Cons tc tcs)
  from loop_body_balanced[OF Cons.prems, of W tc] Cons.IH[of "snd (loop_body W tc s)"]
  show ?case by (auto split: body_splits)
qed


text \<open>The error flag of a tool result is not read.\<close>

lemma loop_body_relabel: "loop_body (relabel_errors f W) tc s = loop_body W tc s"
  by (auto simp: relabel_errors_def loop_body_def Let_def tool_entry_def split: body_splits)

lemma tool_loop_relabel: "tool_loop (relabel_errors f W) tcs s = tool_loop W tcs s"
  by (induction tcs arbitrary: s)
     (auto simp: loop_body_relabel split: prod.splits option.splits)

text \<open>\<^verbatim>\<open>process_query\<close> from its first response on.\<close>

lemma process_query_with_calls:
  assumes "first_response W self query w = Some (tools, w2, first)"
    and "msg_tool_calls first = Some tcs" and "tcs \<noteq> []"
  shows "process_query W self query w =
     (case tool_loop W tcs (first_frame query tools w2) of
        (Some e, s) \<Rightarrow> (Inl e, s)
      | (None, s) \<Rightarrow> (Inr (py_join [CHR 0x0A] (final_text s)), s))"
  using assms
  by (auto simp: first_response_def process_query_def first_frame_def emit_def Let_def
        truthy_list_def iter_list_def
      split: body_splits)

lemma process_query_without_calls:
  assumes "first_response W self query w = Some (tools, w2, first)"
    and "\<not> truthy_list (msg_tool_calls first)"
  shows "process_query W self query w =
     (Inr (py_join [CHR 0x0A] (final_text (capture_text first (first_frame query tools w2)))),
      capture_text first (first_frame query tools w2))"
  using assms
  by (auto simp: first_response_def process_query_def first_frame_def emit_def Let_def
      split: body_splits)

lemma first_frame_balanced: "frame_balanced (first_frame query tools w)"
  by (simp add: frame_balanced_def first_frame_def)

section \<open>Claims on process_query\<close>

text \<open>
  C6. When the first model response contains no tool call (\<^verbatim>\<open>tool_calls\<close> is
  \<^verbatim>\<open>None\<close> or empty), \<^verbatim>\<open>process_query\<close> returns the text of that response as it
  is (the empty string when the response has no text), and the first Model Gateway call
  is the only one made.
\<close>

theorem process_query_passthrough:
  assumes "first_response W self query w = Some (tools, w2, first)"
    and "msg_tool_calls first = None \<or> msg_tool_calls first = Some []"
  shows "fst (process_query W self query w) =
           Inr (case msg_content first of None \<Rightarrow> [] | Some text \<Rightarrow> text)
         \<and> log (snd (process_query W self query w)) =
           [EvListTools, EvCompletion [UserMessage query] (Some (convert_tools tools []))]"
proof -
  from assms(2) have "\<not> truthy_list (msg_tool_calls first)"
    by (auto simp: truthy_list_def)
  from process_query_without_calls[OF assms(1) this]
  show ?thesis
    by (simp add: capture_text_def first_frame_def split: option.splits)
qed

theorem process_query_passthrough_witness:
  "first_response scripted_world connected ''Hello'' (plain_script (Some ''Hi there.''))
     = Some ([alerts_tool], \<lparr>tools_replies = [], model_replies = [], tool_replies = []\<rparr>,
             \<lparr>msg_content = Some ''Hi there.'', msg_tool_calls = None\<rparr>)
   \<and> fst (process_query scripted_world connected ''Hello'' (plain_script (Some ''Hi there.'')))
     = Inr ''Hi there.''"
proof -
  have r: "first_response scripted_world connected ''Hello'' (plain_script (Some ''Hi there.''))
     = Some ([alerts_tool], \<lparr>tools_replies = [], model_replies = [], tool_replies = []\<rparr>,
             \<lparr>msg_content = Some ''Hi there.'', msg_tool_calls = None\<rparr>)"
    by (simp add: first_response_def scripted_world_def connected_def plain_script_def
          reply_text_def)
  from process_query_passthrough[OF r] r show ?thesis by simp
qed

text \<open>
  C9. When the first model response contains no tool call and no text (\<^verbatim>\<open>content\<close>
  is \<^verbatim>\<open>None\<close> or the empty string), \<^verbatim>\<open>process_query\<close> returns the empty string:
  it neither raises nor returns \<^verbatim>\<open>None\<close>.
\<close>

theorem process_query_empty_text:
  assumes "first_response W self query w = Some (tools, w2, first)"
    and "msg_tool_calls first = None \<or> msg_tool_calls first = Some []"
    and "msg_content first = None \<or> msg_content first = Some []"
  shows "fst (process_query W self query w) = Inr []"
proof -
  from assms(2) have "\<not> truthy_list (msg_tool_calls first)"
    by (auto simp: truthy_list_def)
  from process_query_without_calls[OF assms(1) this] assms(3)
  show ?thesis
    by (auto simp: capture_text_def first_frame_def)
qed

theorem process_query_empty_text_witness:
  "first_response scripted_world connected ''Hello'' (plain_script None)
     = Some ([alerts_tool], \<lparr>tools_replies = [], model_replies = [], tool_replies = []\<rparr>,
             \<lparr>msg_content = None, msg_tool_calls = None\<rparr>)
   \<and> fst (process_query scripted_world connected ''Hello'' (plain_script None)) = Inr []"
proof -
  have r: "first_response scripted_world connected ''Hello'' (plain_script None)
     = Some ([alerts_tool], \<lparr>tools_replies = [], model_replies = [], tool_replies = []\<rparr>,
             \<lparr>msg_content = None, msg_tool_calls = None\<rparr>)"
    by (simp add: first_response_def scripted_world_def connected_def plain_script_def
          reply_text_def)
  from process_query_empty_text[OF r] r show ?thesis by simp
qed

text \<open>
  C7. The translation of the listed tools into the provider's function schemas (lines
  115-126) is a total function of the tool list: it yields one schema per tool, in order,
  of type \<^verbatim>\<open>function\<close>, with the tool's name, description and input schema passed
  through unchanged, the input schema as \<^verbatim>\<open>parameters\<close>. No schema is inspected or
  rejected.
\<close>

theorem convert_tools_passthrough:
  "map tool_type (convert_tools tools []) = replicate (length tools) ''function''
   \<and> map (fn_name \<circ> tool_function) (convert_tools tools []) = map tool_name tools
   \<and> map (fn_description \<circ> tool_function) (convert_tools tools []) = map tool_description tools
   \<and> map (fn_parameters \<circ> tool_function) (convert_tools tools []) = map inputSchema tools"
  by (simp add: convert_tools_acc comp_def map_replicate_const)

text \<open>The equations that evaluate a run in the scripted world.\<close>

lemmas run_defs =
  process_query_def loop_body_def scripted_world_def connected_def reply_calls_def
  reply_text_def tool_reply_def call_1_def call_2_def call_bad_def alerts_tool_def
  example_json_loads_def emit_def capture_text_def truthy_list_def iter_list_def Let_def

text \<open>
  C1, as stated, fails: with two tool calls in the first response the client makes two
  follow-up Model Gateway calls, and the first of them before the second tool call is
  dispatched. The log of the run is: list tools, first model call, tool call, follow-up,
  tool call, follow-up.
\<close>

theorem one_followup_counterexample:
  "map is_completion
     (log (snd (process_query scripted_world connected ''Weather?'' two_calls_script)))
   = [False, True, False, True, False, True]"
  by (simp add: run_defs two_calls_script_def is_completion_def)

text \<open>
  C1, amended. When the first model response contains the tool calls \<open>tcs\<close>, at least
  one, and \<^verbatim>\<open>process_query\<close> returns a text, then after the first Model Gateway call
  the client makes, for each tool call in order, the dispatch of that call and then one
  follow-up Model Gateway call, without tool schemas, on the conversation extended by the
  call and its result: as many follow-up calls as tool calls, each before the next tool
  call is dispatched.
\<close>

theorem followup_per_tool_call:
  assumes "first_response W self query w = Some (tools, w2, first)"
    and "msg_tool_calls first = Some tcs" and "tcs \<noteq> []"
    and "fst (process_query W self query w) = Inr text"
  shows "\<exists>evs. log (snd (process_query W self query w)) =
                 [EvListTools, EvCompletion [UserMessage query] (Some (convert_tools tools []))]
                 @ evs
               \<and> one_followup_each tcs evs
               \<and> length (sent_conversations evs) = length tcs"
proof -
  obtain r s where l: "tool_loop W tcs (first_frame query tools w2) = (r, s)"
    by (cases "tool_loop W tcs (first_frame query tools w2)")
  from process_query_with_calls[OF assms(1-3)] l
  have p: "process_query W self query w =
             (case r of Some e \<Rightarrow> (Inl e, s)
                      | None \<Rightarrow> (Inr (py_join [CHR 0x0A] (final_text s)), s))"
    by simp
  with assms(4) have "r = None"
    by (cases r) simp_all
  with l p have s: "snd (process_query W self query w) = s"
    and l': "tool_loop W tcs (first_frame query tools w2) = (None, s)"
    by simp_all
  from tool_loop_ok_log[OF l'] obtain evs
    where "log s = log (first_frame query tools w2) @ evs" "one_followup_each tcs evs"
    by blast
  with s one_followup_each_count[of tcs evs] show ?thesis
    by (simp add: first_frame_def)
qed

theorem followup_per_tool_call_witness:
  "first_response scripted_world connected ''Weather?'' two_calls_script
     = Some ([alerts_tool],
             \<lparr>tools_replies = [],
              model_replies = [reply_text (Some ''No alerts.''), reply_text (Some ''Sunny.'')],
              tool_replies = [tool_reply ''No active alerts for this state.'' False,
                              tool_reply ''Sunny'' False]\<rparr>,
             \<lparr>msg_content = None, msg_tool_calls = Some [call_1, call_2]\<rparr>)
   \<and> fst (process_query scripted_world connected ''Weather?'' two_calls_script)
     = Inr (''No alerts.'' @ [CHR 0x0A] @ ''Sunny.'')
   \<and> (\<exists>evs. log (snd (process_query scripted_world connected ''Weather?'' two_calls_script)) =
              [EvListTools, EvCompletion [UserMessage ''Weather?''] (Some (convert_tools [alerts_tool] []))]
              @ evs
            \<and> one_followup_each [call_1, call_2] evs
            \<and> length (sent_conversations evs) = length [call_1, call_2])"
proof -
  have r: "first_response scripted_world connected ''Weather?'' two_calls_script
     = Some ([alerts_tool],
             \<lparr>tools_replies = [],
              model_replies = [reply_text (Some ''No alerts.''), reply_text (Some ''Sunny.'')],
              tool_replies = [tool_reply ''No active alerts for this state.'' False,
                              tool_reply ''Sunny'' False]\<rparr>,
             \<lparr>msg_content = None, msg_tool_calls = Some [call_1, call_2]\<rparr>)"
    by (simp add: first_response_def scripted_world_def connected_def two_calls_script_def
          reply_calls_def)
  have t: "fst (process_query scripted_world connected ''Weather?'' two_calls_script)
     = Inr (''No alerts.'' @ [CHR 0x0A] @ ''Sunny.'')"
    by (simp add: run_defs two_calls_script_def)
  from followup_per_tool_call[OF r _ _ t] r t show ?thesis by simp
qed

text \<open>
  C4, as stated, fails: with two tool calls in the first response the conversation gets
  two assistant messages, each carrying one tool call, not one message carrying both.
\<close>

theorem one_assistant_message_counterexample:
  "filter is_assistant
     (messages (snd (process_query scripted_world connected ''Weather?'' two_calls_script)))
   = [AssistantMessage None
        [\<lparr>tc_id = ''call_1'', tc_type = ''function'', tc_name = ''get_alerts'',
          tc_arguments = ''{}''\<rparr>],
      AssistantMessage None
        [\<lparr>tc_id = ''call_2'', tc_type = ''function'', tc_name = ''get_forecast'',
          tc_arguments = ''{}''\<rparr>]]"
  by (simp add: run_defs two_calls_script_def is_assistant_def assistant_entry_def
        tool_entry_def)

text \<open>
  C4, amended. When the first model response contains the tool calls \<open>tcs\<close>, at least
  one, and \<^verbatim>\<open>process_query\<close> returns a text, the conversation is the user message
  followed, for each tool call in the order of the calls, by one assistant message
  carrying exactly that one call, with its \<^verbatim>\<open>id\<close>, its tool name and its raw
  arguments text unchanged, and immediately after it the tool-result message of that
  call. So there are as many assistant messages as tool calls, one per call.
\<close>

theorem assistant_message_per_tool_call:
  assumes "first_response W self query w = Some (tools, w2, first)"
    and "msg_tool_calls first = Some tcs" and "tcs \<noteq> []"
    and "fst (process_query W self query w) = Inr text"
  shows "(\<exists>rs :: call_tool_result list. length rs = length tcs
            \<and> messages (snd (process_query W self query w)) =
                UserMessage query #
                concat (map (\<lambda>(tc, r).
                               [AssistantMessage None
                                  [\<lparr>tc_id = call_id tc, tc_type = ''function'',
                                    tc_name = call_name tc,
                                    tc_arguments = call_arguments tc\<rparr>],
                                ToolResultMessage (call_id tc) (call_name tc)
                                  (result_content r)])
                            (zip tcs rs)))
         \<and> filter is_assistant (messages (snd (process_query W self query w))) =
           map (\<lambda>tc. AssistantMessage None
                        [\<lparr>tc_id = call_id tc, tc_type = ''function'',
                          tc_name = call_name tc, tc_arguments = call_arguments tc\<rparr>]) tcs"
proof -
  obtain r s where l: "tool_loop W tcs (first_frame query tools w2) = (r, s)"
    by (cases "tool_loop W tcs (first_frame query tools w2)")
  from process_query_with_calls[OF assms(1-3)] l
  have p: "process_query W self query w =
             (case r of Some e \<Rightarrow> (Inl e, s)
                      | None \<Rightarrow> (Inr (py_join [CHR 0x0A] (final_text s)), s))"
    by simp
  with assms(4) have "r = None"
    by (cases r) simp_all
  with l p have s: "snd (process_query W self query w) = s"
    and l': "tool_loop W tcs (first_frame query tools w2) = (None, s)"
    by simp_all
  from tool_loop_ok_messages[OF l'] obtain rs
    where rs: "length tcs = length rs"
      "messages s = messages (first_frame query tools w2) @
         concat (map (\<lambda>(tc, r). [assistant_entry tc, tool_entry tc r]) (zip tcs rs))"
    by blast
  from rs s have "length rs = length tcs
      \<and> messages (snd (process_query W self query w)) =
          UserMessage query #
          concat (map (\<lambda>(tc, r).
                         [AssistantMessage None
                            [\<lparr>tc_id = call_id tc, tc_type = ''function'',
                              tc_name = call_name tc,
                              tc_arguments = call_arguments tc\<rparr>],
                          ToolResultMessage (call_id tc) (call_name tc)
                            (result_content r)])
                      (zip tcs rs))"
    by (simp add: first_frame_def assistant_entry_def tool_entry_def)
  then have first: "\<exists>rs :: call_tool_result list. length rs = length tcs
      \<and> messages (snd (process_query W self query w)) =
          UserMessage query #
          concat (map (\<lambda>(tc, r).
                         [AssistantMessage None
                            [\<lparr>tc_id = call_id tc, tc_type = ''function'',
                              tc_name = call_name tc,
                              tc_arguments = call_arguments tc\<rparr>],
                          ToolResultMessage (call_id tc) (call_name tc)
                            (result_content r)])
                      (zip tcs rs))"
    by blast
  from rs s filter_assistant_rounds[of tcs rs] have
    "filter is_assistant (messages (snd (process_query W self query w))) =
       map assistant_entry tcs"
    by (simp add: first_frame_def is_assistant_def)
  then have "filter is_assistant (messages (snd (process_query W self query w))) =
           map (\<lambda>tc. AssistantMessage None
                        [\<lparr>tc_id = call_id tc, tc_type = ''function'',
                          tc_name = call_name tc, tc_arguments = call_arguments tc\<rparr>]) tcs"
    by (simp add: assistant_entry_def)
  with first show ?thesis
    by blast
qed

theorem assistant_message_per_tool_call_witness:
  "first_response scripted_world connected ''Weather?'' (flag_script False)
     = Some ([alerts_tool],
             \<lparr>tools_replies = [],
              model_replies = [reply_text (Some ''The alert service failed.''),
                               reply_text (Some ''Sunny.'')],
              tool_replies = [tool_reply ''Error executing tool get_alerts'' False,
                              tool_reply ''Sunny'' False]\<rparr>,
             \<lparr>msg_content = None, msg_tool_calls = Some [call_1, call_2]\<rparr>)
   \<and> fst (process_query scripted_world connected ''Weather?'' (flag_script False))
     = Inr (''The alert service failed.'' @ [CHR 0x0A] @ ''Sunny.'')
   \<and> (\<exists>rs :: call_tool_result list. length rs = length [call_1, call_2]
          \<and> messages (snd (process_query scripted_world connected ''Weather?''
                             (flag_script False))) =
              UserMessage ''Weather?'' #
              concat (map (\<lambda>(tc, r).
                             [AssistantMessage None
                                [\<lparr>tc_id = call_id tc, tc_type = ''function'',
                                  tc_name = call_name tc,
                                  tc_arguments = call_arguments tc\<rparr>],
                              ToolResultMessage (call_id tc) (call_name tc)
                                (result_content r)])
                          (zip [call_1, call_2] rs)))
   \<and> filter is_assistant
       (messages (snd (process_query scripted_world connected ''Weather?'' (flag_script False))))
     = map (\<lambda>tc. AssistantMessage None
                   [\<lparr>tc_id = call_id tc, tc_type = ''function'',
                     tc_name = call_name tc, tc_arguments = call_arguments tc\<rparr>])
         [call_1, call_2]"
proof -
  have r: "first_response scripted_world connected ''Weather?'' (flag_script False)
     = Some ([alerts_tool],
             \<lparr>tools_replies = [],
              model_replies = [reply_text (Some ''The alert service failed.''),
                               reply_text (Some ''Sunny.'')],
              tool_replies = [tool_reply ''Error executing tool get_alerts'' False,
                              tool_reply ''Sunny'' False]\<rparr>,
             \<lparr>msg_content = None, msg_tool_calls = Some [call_1, call_2]\<rparr>)"
    by (simp add: first_response_def scripted_world_def connected_def flag_script_def
          reply_calls_def)
  have c: "msg_tool_calls \<lparr>msg_content = None, msg_tool_calls = Some [call_1, call_2]\<rparr>
             = Some [call_1, call_2]"
    by simp
  have n: "[call_1, call_2] \<noteq> []"
    by simp
  have t: "fst (process_query scripted_world connected ''Weather?'' (flag_script False))
     = Inr (''The alert service failed.'' @ [CHR 0x0A] @ ''Sunny.'')"
    by (simp add: run_defs flag_script_def)
  from assistant_message_per_tool_call[OF r c n t] r t show ?thesis
    by blast
qed

text \<open>
  C5, as stated, fails: in a round of two tool calls where the arguments of the second
  are not JSON, the call ends with \<^verbatim>\<open>JSONDecodeError\<close> and the conversation has got
  one tool-result message, not two.
\<close>

theorem result_per_call_counterexample:
  "msg_tool_calls (hd (choices (projr (hd (model_replies bad_second_script)))))
     = Some [call_1, call_bad]
   \<and> fst (process_query scripted_world connected ''Weather?'' bad_second_script)
     = Inl JSONDecodeError
   \<and> filter is_tool_result
       (messages (snd (process_query scripted_world connected ''Weather?'' bad_second_script)))
     = [ToolResultMessage ''call_1'' ''get_alerts''
          [TextContent ''No active alerts for this state.'']]"
  by (simp add: run_defs bad_second_script_def is_tool_result_def assistant_entry_def
        tool_entry_def)

text \<open>
  C5, amended. When the first model response contains the tool calls \<open>tcs\<close>, at least
  one, then: if \<^verbatim>\<open>process_query\<close> returns a text, the tool-result messages of the
  conversation are as many as the tool calls and carry their call ids in the same order;
  and, whether it returns or raises, the conversation it has built and every conversation
  it has sent to the model are balanced: each tool call in an assistant message is
  followed by the tool-result message of the same call id before anything else.
\<close>

theorem result_per_completed_call:
  assumes "first_response W self query w = Some (tools, w2, first)"
    and "msg_tool_calls first = Some tcs" and "tcs \<noteq> []"
  shows "(\<forall>text. fst (process_query W self query w) = Inr text \<longrightarrow>
            result_ids (messages (snd (process_query W self query w))) = map call_id tcs)
         \<and> balanced_from [] (messages (snd (process_query W self query w)))
         \<and> list_all (balanced_from [])
             (sent_conversations (log (snd (process_query W self query w))))"
proof -
  obtain r s where l: "tool_loop W tcs (first_frame query tools w2) = (r, s)"
    by (cases "tool_loop W tcs (first_frame query tools w2)")
  from process_query_with_calls[OF assms] l
  have p: "process_query W self query w =
             (case r of Some e \<Rightarrow> (Inl e, s)
                      | None \<Rightarrow> (Inr (py_join [CHR 0x0A] (final_text s)), s))"
    by simp
  then have s: "snd (process_query W self query w) = s"
    by (cases r) simp_all
  from tool_loop_balanced[OF first_frame_balanced, of W tcs query tools w2] l
  have b: "frame_balanced s"
    by simp
  have "result_ids (messages s) = map call_id tcs"
    if "fst (process_query W self query w) = Inr answer" for answer
  proof -
    from that p have "r = None"
      by (cases r) simp_all
    with l have "tool_loop W tcs (first_frame query tools w2) = (None, s)"
      by simp
    from tool_loop_ok_messages[OF this] obtain rs
      where "length tcs = length rs"
        "messages s = messages (first_frame query tools w2) @
           concat (map (\<lambda>(tc, r). [assistant_entry tc, tool_entry tc r]) (zip tcs rs))"
      by blast
    with result_ids_rounds[of tcs rs] show ?thesis
      by (simp add: first_frame_def result_ids_append)
  qed
  with s b show ?thesis
    by (simp add: frame_balanced_def)
qed

theorem result_per_completed_call_witness:
  "first_response scripted_world connected ''Weather?'' bad_second_script
     = Some ([alerts_tool],
             \<lparr>tools_replies = [],
              model_replies = [reply_text (Some ''No alerts.''), reply_text (Some ''Done.'')],
              tool_replies = [tool_reply ''No active alerts for this state.'' False,
                              tool_reply ''No active alerts for this state.'' False]\<rparr>,
             \<lparr>msg_content = None, msg_tool_calls = Some [call_1, call_bad]\<rparr>)
   \<and> balanced_from []
       (messages (snd (process_query scripted_world connected ''Weather?'' bad_second_script)))
   \<and> list_all (balanced_from [])
       (sent_conversations
          (log (snd (process_query scripted_world connected ''Weather?'' bad_second_script))))
   \<and> fst (process_query scripted_world connected ''Forecast?'' (flag_script True))
     = Inr (''The alert service failed.'' @ [CHR 0x0A] @ ''Sunny.'')
   \<and> result_ids
       (messages (snd (process_query scripted_world connected ''Forecast?'' (flag_script True))))
     = map call_id [call_1, call_2]"
proof -
  have r: "first_response scripted_world connected ''Weather?'' bad_second_script
     = Some ([alerts_tool],
             \<lparr>tools_replies = [],
              model_replies = [reply_text (Some ''No alerts.''), reply_text (Some ''Done.'')],
              tool_replies = [tool_reply ''No active alerts for this state.'' False,
                              tool_reply ''No active alerts for this state.'' False]\<rparr>,
             \<lparr>msg_content = None, msg_tool_calls = Some [call_1, call_bad]\<rparr>)"
    by (simp add: first_response_def scripted_world_def connected_def bad_second_script_def
          reply_calls_def)
  have r': "first_response scripted_world connected ''Forecast?'' (flag_script True)
     = Some ([alerts_tool],
             \<lparr>tools_replies = [],
              model_replies = [reply_text (Some ''The alert service failed.''),
                               reply_text (Some ''Sunny.'')],
              tool_replies = [tool_reply ''Error executing tool get_alerts'' True,
                              tool_reply ''Sunny'' False]\<rparr>,
             \<lparr>msg_content = None, msg_tool_calls = Some [call_1, call_2]\<rparr>)"
    by (simp add: first_response_def scripted_world_def connected_def flag_script_def
          reply_calls_def)
  have t: "fst (process_query scripted_world connected ''Forecast?'' (flag_script True))
     = Inr (''The alert service failed.'' @ [CHR 0x0A] @ ''Sunny.'')"
    by (simp add: run_defs flag_script_def)
  from result_per_completed_call[OF r] result_per_completed_call[OF r'] r t
  show ?thesis by simp
qed




text \<open>
  C3, as stated, fails: the tool-result message has no error flag. When the remote tool
  answers the first call with \<^verbatim>\<open>isError\<close> set, the conversation built is the very
  one built when it answers with the same content and the flag not set: the message
  carries the call id, the tool name and the content only.
\<close>

theorem error_flag_counterexample:
  "messages (snd (process_query scripted_world connected ''Weather?'' (flag_script True)))
   = messages (snd (process_query scripted_world connected ''Weather?'' (flag_script False)))
   \<and> filter is_tool_result
       (messages (snd (process_query scripted_world connected ''Weather?'' (flag_script True))))
     = [ToolResultMessage ''call_1'' ''get_alerts''
          [TextContent ''Error executing tool get_alerts''],
        ToolResultMessage ''call_2'' ''get_forecast'' [TextContent ''Sunny'']]"
  by (simp add: run_defs flag_script_def is_tool_result_def assistant_entry_def
        tool_entry_def)

text \<open>
  C3, amended. When the remote tool answers a tool call with a result whose
  \<^verbatim>\<open>isError\<close> flag is set, a tool-result message with the call id, the tool name
  and the content of that result is still appended, without any error flag, and after the
  follow-up Model Gateway call the loop goes on with the remaining tool calls of the
  round. The flag is never read: a whole \<^verbatim>\<open>process_query\<close> call is the same
  whatever flags the results carry.
\<close>

theorem error_result_appended:
  assumes "json_loads W (call_arguments tc) = Inr args"
    and "call_tool W (call_name tc) args (ws s) = (Inr result, w1)"
    and "isError result"
    and "chat_completions_create W
           (messages s @ [assistant_entry tc,
              ToolResultMessage (call_id tc) (call_name tc) (result_content result)])
           None w1 = (Inr completion, w2)"
    and "choices completion = reply # others"
  shows "tool_loop W (tc # remaining) s =
           tool_loop W remaining
             (capture_text reply
                (s\<lparr>ws := w2,
                   log := log s @
                     [EvCallTool (call_name tc) args,
                      EvCompletion
                        (messages s @ [assistant_entry tc,
                           ToolResultMessage (call_id tc) (call_name tc) (result_content result)])
                        None],
                   messages := messages s @ [assistant_entry tc,
                     ToolResultMessage (call_id tc) (call_name tc) (result_content result)]\<rparr>))
         \<and> process_query (relabel_errors f W) self query w = process_query W self query w"
proof -
  from assms have "loop_body W tc s =
      (None, capture_text reply
                (s\<lparr>ws := w2,
                   log := log s @
                     [EvCallTool (call_name tc) args,
                      EvCompletion
                        (messages s @ [assistant_entry tc,
                           ToolResultMessage (call_id tc) (call_name tc) (result_content result)])
                        None],
                   messages := messages s @ [assistant_entry tc,
                     ToolResultMessage (call_id tc) (call_name tc) (result_content result)]\<rparr>))"
    by (cases s) (simp add: loop_body_def Let_def tool_entry_def emit_def)
  then have "tool_loop W (tc # remaining) s =
           tool_loop W remaining
             (capture_text reply
                (s\<lparr>ws := w2,
                   log := log s @
                     [EvCallTool (call_name tc) args,
                      EvCompletion
                        (messages s @ [assistant_entry tc,
                           ToolResultMessage (call_id tc) (call_name tc) (result_content result)])
                        None],
                   messages := messages s @ [assistant_entry tc,
                     ToolResultMessage (call_id tc) (call_name tc) (result_content result)]\<rparr>))"
    by simp
  moreover have "process_query (relabel_errors f W) self query w = process_query W self query w"
  proof -
    have other:
      "list_tools (relabel_errors f W) = list_tools W"
      "chat_completions_create (relabel_errors f W) = chat_completions_create W"
      by (simp_all add: relabel_errors_def)
    show ?thesis
      unfolding process_query_def other tool_loop_relabel ..
  qed
  ultimately show ?thesis by simp
qed

theorem error_result_appended_witness:
  "json_loads scripted_world (call_arguments call_1) = Inr (JObject [])
   \<and> call_tool scripted_world (call_name call_1) (JObject [])
         (ws (first_frame ''Weather?'' [alerts_tool]
          \<lparr>tools_replies = [],
             model_replies = [reply_text (Some ''The alert service failed.''),
                              reply_text (Some ''Sunny.'')],
             tool_replies = [tool_reply ''Error executing tool get_alerts'' True,
                             tool_reply ''Sunny'' False]\<rparr>))
       = (Inr \<lparr>result_content = [TextContent ''Error executing tool get_alerts''],
                isError = True\<rparr>,
          \<lparr>tools_replies = [],
           model_replies = [reply_text (Some ''The alert service failed.''),
                            reply_text (Some ''Sunny.'')],
           tool_replies = [tool_reply ''Sunny'' False]\<rparr>)
   \<and> messages (snd (tool_loop scripted_world [call_1, call_2]
          (first_frame ''Weather?'' [alerts_tool]
          \<lparr>tools_replies = [],
             model_replies = [reply_text (Some ''The alert service failed.''),
                              reply_text (Some ''Sunny.'')],
             tool_replies = [tool_reply ''Error executing tool get_alerts'' True,
                             tool_reply ''Sunny'' False]\<rparr>)))
       = [UserMessage ''Weather?'',
          assistant_entry call_1,
          ToolResultMessage ''call_1'' ''get_alerts''
            [TextContent ''Error executing tool get_alerts''],
          assistant_entry call_2,
          ToolResultMessage ''call_2'' ''get_forecast'' [TextContent ''Sunny'']]
   \<and> process_query (relabel_errors (\<lambda>r. False) scripted_world) connected ''Weather?''
         (flag_script True)
       = process_query scripted_world connected ''Weather?'' (flag_script True)"
proof -
  let ?w0 = "\<lparr>tools_replies = [],
             model_replies = [reply_text (Some ''The alert service failed.''),
                              reply_text (Some ''Sunny.'')],
             tool_replies = [tool_reply ''Error executing tool get_alerts'' True,
                             tool_reply ''Sunny'' False]\<rparr>"
  let ?s = "first_frame ''Weather?'' [alerts_tool] ?w0"
  let ?r = "\<lparr>result_content = [TextContent ''Error executing tool get_alerts''],
             isError = True\<rparr>"
  let ?w1 = "?w0\<lparr>tool_replies := [tool_reply ''Sunny'' False]\<rparr>"
  let ?c = "\<lparr>choices = [\<lparr>msg_content = Some ''The alert service failed.'',
                          msg_tool_calls = None\<rparr>]\<rparr>"
  let ?w2 = "?w1\<lparr>model_replies := [reply_text (Some ''Sunny.'')]\<rparr>"
  have j: "json_loads scripted_world (call_arguments call_1) = Inr (JObject [])"
    by (simp add: scripted_world_def call_1_def example_json_loads_def)
  have c: "call_tool scripted_world (call_name call_1) (JObject []) (ws ?s) = (Inr ?r, ?w1)"
    by (simp add: scripted_world_def first_frame_def flag_script_def tool_reply_def)
  have e: "isError ?r"
    by simp
  have m: "chat_completions_create scripted_world
             (messages ?s @ [assistant_entry call_1,
                ToolResultMessage (call_id call_1) (call_name call_1) (result_content ?r)])
             None ?w1 = (Inr ?c, ?w2)"
    by (simp add: scripted_world_def flag_script_def reply_calls_def reply_text_def)
  have h: "choices ?c = \<lparr>msg_content = Some ''The alert service failed.'',
                          msg_tool_calls = None\<rparr> # []"
    by simp
  from error_result_appended[OF j c e m h, of "[call_2]" "\<lambda>r. False" connected "''Weather?''"
         "flag_script True"]
  have step: "tool_loop scripted_world [call_1, call_2] ?s =
           tool_loop scripted_world [call_2]
             (capture_text \<lparr>msg_content = Some ''The alert service failed.'',
                             msg_tool_calls = None\<rparr>
                (?s\<lparr>ws := ?w2,
                   log := log ?s @
                     [EvCallTool (call_name call_1) (JObject []),
                      EvCompletion
                        (messages ?s @ [assistant_entry call_1,
                           ToolResultMessage (call_id call_1) (call_name call_1)
                             (result_content ?r)])
                        None],
                   messages := messages ?s @ [assistant_entry call_1,
                     ToolResultMessage (call_id call_1) (call_name call_1)
                       (result_content ?r)]\<rparr>))"
    and same: "process_query (relabel_errors (\<lambda>r. False) scripted_world) connected ''Weather?''
         (flag_script True)
       = process_query scripted_world connected ''Weather?'' (flag_script True)"
    by simp_all
  have "messages (snd (tool_loop scripted_world [call_1, call_2] ?s))
       = [UserMessage ''Weather?'',
          assistant_entry call_1,
          ToolResultMessage ''call_1'' ''get_alerts''
            [TextContent ''Error executing tool get_alerts''],
          assistant_entry call_2,
          ToolResultMessage ''call_2'' ''get_forecast'' [TextContent ''Sunny'']]"
    unfolding step
    by (simp add: first_frame_def loop_body_def scripted_world_def flag_script_def
          reply_text_def tool_reply_def call_1_def call_2_def example_json_loads_def
          emit_def capture_text_def tool_entry_def Let_def)
  with j c same show ?thesis by simp
qed

section \<open>Claims on the session\<close>

lemma process_query_log:
  assumes "session self = Some h"
  shows "\<exists>evs. log (snd (process_query W self query w)) = EvListTools # evs
               \<and> EvListTools \<notin> set evs"
proof (cases "list_tools W w")
  case (Pair r1 w1)
  note lt = this
  show ?thesis
  proof (cases r1)
    case (Inl e)
    with assms lt show ?thesis
      by (simp add: process_query_def)
  next
    case (Inr tools)
    note r1 = this
    show ?thesis
    proof (cases "chat_completions_create W [UserMessage query]
                    (Some (convert_tools tools [])) w1")
      case (Pair r2 w2)
      note cc = this
      show ?thesis
      proof (cases r2)
        case (Inl e)
        with assms lt r1 cc show ?thesis
          by (simp add: process_query_def Let_def)
      next
        case (Inr completion)
        note r2 = this
        show ?thesis
        proof (cases "choices completion")
          case Nil
          with assms lt r1 cc r2 show ?thesis
            by (simp add: process_query_def Let_def)
        next
          case (Cons first others)
          with assms lt r1 cc r2
          have fr: "first_response W self query w = Some (tools, w2, first)"
            by (simp add: first_response_def)
          show ?thesis
          proof (cases "truthy_list (msg_tool_calls first)")
            case False
            from process_query_without_calls[OF fr False] show ?thesis
              by (simp add: first_frame_def)
          next
            case True
            then obtain tcs where tcs: "msg_tool_calls first = Some tcs" "tcs \<noteq> []"
              by (auto simp: truthy_list_def split: option.splits)
            from tool_loop_log[of W tcs "first_frame query tools w2"] obtain evs
              where "log (snd (tool_loop W tcs (first_frame query tools w2))) =
                       log (first_frame query tools w2) @ evs"
                "EvListTools \<notin> set evs"
              by blast
            with process_query_with_calls[OF fr tcs] show ?thesis
              by (auto simp: first_frame_def split: prod.splits option.splits)
          qed
        qed
      qed
    qed
  qed
qed

text \<open>
  C8, as stated, fails: the tool list is not cached. After a successful connect, which
  lists the tools once, the next query lists them again before its first Model Gateway
  call.
\<close>

theorem list_tools_once_counterexample:
  "fst after_connect = None
   \<and> snd (snd (snd after_connect))
     = [EvStdioClient ''python'' [''weather.py''], EvClientSession, EvInitialize, EvListTools,
        EvPrintTools [''get_alerts'']]
   \<and> log (snd (process_query scripted_world (fst (snd after_connect)) ''Hello''
                  (fst (snd (snd after_connect)))))
     = [EvListTools, EvCompletion [UserMessage ''Hello''] (Some (convert_tools [alerts_tool] []))]"
  by (simp add: after_connect_def connect_to_server_def endswith_def MCPClient_init_def
        session_script_def run_defs)

text \<open>
  C8, amended. A successful \<^verbatim>\<open>connect_to_server\<close> lists the tools exactly once
  (to print their names), and every later \<^verbatim>\<open>process_query\<close> on that client,
  in whatever state the world then is, lists them again: exactly once, as its first call.
\<close>

theorem list_tools_every_query:
  assumes "connect_to_server W self path w = (None, self1, w1, l)"
  shows "count_list l EvListTools = 1
         \<and> count_list (log (snd (process_query W self1 query w'))) EvListTools = 1
         \<and> take 1 (log (snd (process_query W self1 query w'))) = [EvListTools]"
proof -
  from assms have l: "count_list l EvListTools = 1" and s: "session self1 = Some ClientSession"
    by (auto simp: connect_to_server_def Let_def split: if_splits body_splits)
  from process_query_log[OF s, of W query w'] obtain evs
    where "log (snd (process_query W self1 query w')) = EvListTools # evs"
      "EvListTools \<notin> set evs"
    by blast
  with l show ?thesis
    by (simp add: count_list_0_iff)
qed

theorem list_tools_every_query_witness:
  "connect_to_server scripted_world MCPClient_init ''weather.py'' session_script
     = (None, connected,
        \<lparr>tools_replies = [Inr [alerts_tool]], model_replies = [reply_text (Some ''Hello.'')],
         tool_replies = []\<rparr>,
        [EvStdioClient ''python'' [''weather.py''], EvClientSession, EvInitialize, EvListTools,
         EvPrintTools [''get_alerts'']])
   \<and> count_list (log (snd (process_query scripted_world connected ''Hello''
          \<lparr>tools_replies = [Inr [alerts_tool]], model_replies = [reply_text (Some ''Hello.'')],
           tool_replies = []\<rparr>))) EvListTools = 1"
proof -
  have c: "connect_to_server scripted_world MCPClient_init ''weather.py'' session_script
     = (None, connected,
        \<lparr>tools_replies = [Inr [alerts_tool]], model_replies = [reply_text (Some ''Hello.'')],
         tool_replies = []\<rparr>,
        [EvStdioClient ''python'' [''weather.py''], EvClientSession, EvInitialize, EvListTools,
         EvPrintTools [''get_alerts'']])"
    by (simp add: connect_to_server_def endswith_def MCPClient_init_def session_script_def
          scripted_world_def connected_def alerts_tool_def)
  from list_tools_every_query[OF c] c show ?thesis by simp
qed

section \<open>Claims on get_forecast\<close>

lemma format_periods_ok:
  "format_periods N ps acc = Inr fs \<Longrightarrow>
     \<exists>ts. fs = acc @ ts \<and> length ts = length ps
          \<and> (\<forall>i < length ps. format_period N (ps ! i) = Inr (ts ! i))"
proof (induction ps arbitrary: acc)
  case Nil
  then show ?case by simp
next
  case (Cons p ps)
  from Cons.prems obtain t
    where t: "format_period N p = Inr t" and r: "format_periods N ps (acc @ [t]) = Inr fs"
    by (auto split: sum.splits)
  from Cons.IH[OF r] obtain ts
    where ts: "fs = (acc @ [t]) @ ts" "length ts = length ps"
      "\<forall>i < length ps. format_period N (ps ! i) = Inr (ts ! i)"
    by blast
  have "\<forall>i < length (p # ps). format_period N ((p # ps) ! i) = Inr ((t # ts) ! i)"
  proof (intro allI impI)
    fix i
    assume "i < length (p # ps)"
    with t ts(3) show "format_period N ((p # ps) ! i) = Inr ((t # ts) ! i)"
      by (cases i) simp_all
  qed
  with ts(1,2) have "fs = acc @ (t # ts) \<and> length (t # ts) = length (p # ps)
      \<and> (\<forall>i < length (p # ps). format_period N ((p # ps) ! i) = Inr ((t # ts) ! i))"
    by simp
  then show ?case by blast
qed

lemma format_periods_error:
  "format_periods N ps acc = Inl e \<Longrightarrow> \<exists>i < length ps. format_period N (ps ! i) = Inl e"
proof (induction ps arbitrary: acc)
  case Nil
  then show ?case by simp
next
  case (Cons p ps)
  show ?case
  proof (cases "format_period N p")
    case (Inl e')
    with Cons.prems have "format_period N ((p # ps) ! 0) = Inl e"
      by simp
    then show ?thesis by blast
  next
    case (Inr t)
    with Cons.prems have "format_periods N ps (acc @ [t]) = Inl e"
      by simp
    from Cons.IH[OF this] obtain i where "i < length ps" "format_period N (ps ! i) = Inl e"
      by blast
    then have "Suc i < length (p # ps) \<and> format_period N ((p # ps) ! Suc i) = Inl e"
      by simp
    then show ?thesis by blast
  qed
qed

text \<open>
  C10. When both requests succeed and the forecast response holds the list \<open>periods\<close>
  under \<^verbatim>\<open>properties.periods\<close>, \<^verbatim>\<open>get_forecast\<close> reads the first five periods
  at most: the text it returns is the join, with the separator line, of one formatted text
  per period for the first \<open>min 5 (length periods)\<close> periods, in the order of the
  response; and if it raises instead, the exception comes from formatting one of those
  periods. The periods after the fifth are not read.
\<close>

theorem get_forecast_first_five:
  assumes "make_nws_request N
             (JString (NWS_API_BASE @ ''/points/'' @ py_format N latitude @ '','' @
                       py_format N longitude)) n = (points_data, n1)"
    and "py_truthy points_data"
    and "py_getitem points_data ''properties'' = Inr props"
    and "py_getitem props ''forecast'' = Inr forecast_url"
    and "make_nws_request N forecast_url n1 = (forecast_data, n2)"
    and "py_truthy forecast_data"
    and "py_getitem forecast_data ''properties'' = Inr fprops"
    and "py_getitem fprops ''periods'' = Inr (JArray periods)"
  shows "case fst (get_forecast N latitude longitude n) of
           Inr answer \<Rightarrow>
             (\<exists>forecasts. length forecasts = min 5 (length periods)
                \<and> (\<forall>i < length forecasts. format_period N (periods ! i) = Inr (forecasts ! i))
                \<and> answer = py_join ([CHR 0x0A] @ ''---'' @ [CHR 0x0A]) forecasts)
         | Inl e \<Rightarrow>
             (\<exists>i < min 5 (length periods). format_period N (periods ! i) = Inl e)"
proof -
  from assms
  have g: "fst (get_forecast N latitude longitude n) =
             (case format_periods N (take 5 periods) [] of
                Inl e \<Rightarrow> Inl e
              | Inr forecasts \<Rightarrow> Inr (py_join ([CHR 0x0A] @ ''---'' @ [CHR 0x0A]) forecasts))"
    by (simp add: get_forecast_def Let_def split: sum.splits)
  show ?thesis
  proof (cases "format_periods N (take 5 periods) []")
    case (Inl e)
    from format_periods_error[OF Inl] obtain i
      where "i < length (take 5 periods)" "format_period N (take 5 periods ! i) = Inl e"
      by blast
    then have "i < min 5 (length periods) \<and> format_period N (periods ! i) = Inl e"
      by simp
    with g Inl show ?thesis by auto
  next
    case (Inr fs)
    from format_periods_ok[OF Inr] obtain ts
      where ts: "fs = [] @ ts" "length ts = length (take 5 periods)"
        "\<forall>i < length (take 5 periods). format_period N (take 5 periods ! i) = Inr (ts ! i)"
      by blast
    then have "length fs = min 5 (length periods)
        \<and> (\<forall>i < length fs. format_period N (periods ! i) = Inr (fs ! i))"
      by simp
    with g Inr show ?thesis by auto
  qed
qed

theorem get_forecast_first_five_witness:
  "make_nws_request example_nws example_forecast_url () = (example_forecast, ())
   \<and> py_getitem example_forecast ''properties'' = Inr (JObject [(''periods'', JArray example_periods)])
   \<and> length example_periods = 6
   \<and> (case fst (get_forecast example_nws (JFloat 40 0) (JFloat (- 75) 0) ()) of
         Inr answer \<Rightarrow>
           (\<exists>forecasts. length forecasts = min 5 (length example_periods)
              \<and> (\<forall>i < length forecasts.
                    format_period example_nws (example_periods ! i) = Inr (forecasts ! i))
              \<and> answer = py_join ([CHR 0x0A] @ ''---'' @ [CHR 0x0A]) forecasts)
       | Inl e \<Rightarrow>
           (\<exists>i < min 5 (length example_periods).
              format_period example_nws (example_periods ! i) = Inl e))
   \<and> (\<exists>answer. fst (get_forecast example_nws (JFloat 40 0) (JFloat (- 75) 0) ()) = Inr answer)"
proof -
  have h1: "make_nws_request example_nws
              (JString (NWS_API_BASE @ ''/points/'' @ py_format example_nws (JFloat 40 0) @ '','' @
                        py_format example_nws (JFloat (- 75) 0))) () = (example_points, ())"
    by (simp add: make_nws_request_def example_nws_def example_format_def NWS_API_BASE_def)
  have h2: "py_truthy example_points"
    by (simp add: example_points_def)
  have h3: "py_getitem example_points ''properties'' = Inr (JObject [(''forecast'', example_forecast_url)])"
    by (simp add: example_points_def)
  have h4: "py_getitem (JObject [(''forecast'', example_forecast_url)]) ''forecast''
              = Inr example_forecast_url"
    by simp
  have h5: "make_nws_request example_nws example_forecast_url () = (example_forecast, ())"
    by (simp add: make_nws_request_def example_nws_def example_forecast_url_def)
  have h6: "py_truthy example_forecast"
    by (simp add: example_forecast_def)
  have h7: "py_getitem example_forecast ''properties''
              = Inr (JObject [(''periods'', JArray example_periods)])"
    by (simp add: example_forecast_def)
  have h8: "py_getitem (JObject [(''periods'', JArray example_periods)]) ''periods''
              = Inr (JArray example_periods)"
    by simp
  have len: "length example_periods = 6"
    by (simp add: example_periods_def)
  have ok: "\<exists>answer. fst (get_forecast example_nws (JFloat 40 0) (JFloat (- 75) 0) ()) = Inr answer"
    by (simp add: get_forecast_def make_nws_request_def example_nws_def example_format_def
          NWS_API_BASE_def example_points_def example_forecast_url_def example_forecast_def
          example_periods_def example_period_def format_period_def)
  from get_forecast_first_five[OF h1 h2 h3 h4 h5 h6 h7 h8] h5 h7 len ok
  show ?thesis by simp
qed

end
